theory Spec2Isabelle
  imports Complex_Main "HOL-Library.Sublist"
begin

section \<open>Orbyt: the repository graph builder of \<^verbatim>\<open>extension.ts\<close>\<close>

text \<open>
  \<^verbatim>\<open>src/orbyt/src/extension.ts\<close> holds three successive definitions of
  \<^verbatim>\<open>buildRepoGraph\<close>: lines 50-204 (no stats), lines 408-602 (folder nodes,
  hierarchy and rollup edges, stats) and lines 1107-1269 (file nodes only, stats).
  The second and the third are embedded here as \<open>buildRepoGraph2\<close> and
  \<open>buildRepoGraph3\<close>; the per-file metrics are the same expressions in all three.

  JavaScript strings are modelled as \<^typ>\<open>string\<close>; text outside ASCII is taken in its
  UTF-8 encoding. Every operation below splits, searches or compares at ASCII
  characters only, which no multi-byte sequence contains.
\<close>

subsection \<open>String primitives of the host language\<close>

text \<open>\<^verbatim>\<open>s.split(c)\<close> for a one-character separator: \<^verbatim>\<open>"".split("\n")\<close> is \<^verbatim>\<open>[""]\<close>.\<close>

fun split_on :: "char \<Rightarrow> string \<Rightarrow> string list" where
  "split_on sep [] = [[]]"
| "split_on sep (c # cs) =
     (if c = sep then [] # split_on sep cs
      else (case split_on sep cs of
              [] \<Rightarrow> [[c]]
            | seg # segs \<Rightarrow> (c # seg) # segs))"

text \<open>\<^verbatim>\<open>parts.join(sep)\<close>.\<close>

fun join_with :: "string \<Rightarrow> string list \<Rightarrow> string" where
  "join_with sep [] = []"
| "join_with sep [p] = p"
| "join_with sep (p # q # ps) = p @ sep @ join_with sep (q # ps)"

text \<open>\<^verbatim>\<open>s.endsWith(k)\<close>.\<close>

definition endsWith :: "string \<Rightarrow> string \<Rightarrow> bool" where
  "endsWith s k = (length k \<le> length s \<and> drop (length s - length k) s = k)"

definition newline :: char where
  "newline = CHR 0x0A"

text \<open>ASCII case folding, as the \<^verbatim>\<open>i\<close> flag of a regular expression without the
  \<^verbatim>\<open>u\<close> flag does on the letters of the extension lists.\<close>

definition lower_char :: "char \<Rightarrow> char" where
  "lower_char c =
     (if (65::nat) \<le> of_char c \<and> of_char c \<le> (90::nat)
      then char_of (of_char c + (32::nat)) else c)"

subsection \<open>Per-file metrics (lines 111-112, 490-491, 1167-1168)\<close>

text \<open>\<^verbatim>\<open>const loc = content.split("\n").length;\<close>\<close>

definition loc_of :: "string \<Rightarrow> nat" where
  "loc_of content = length (split_on newline content)"

text \<open>
  \<^verbatim>\<open>content.match(/\b(if|for|while|case|catch|&&|\|\|)\b/g) || []).length + 1\<close>

  \<^verbatim>\<open>\w\<close> is \<^verbatim>\<open>[A-Za-z0-9_]\<close>. \<^verbatim>\<open>\b\<close> holds between two positions when exactly
  one of the neighbouring characters is a word character; the start and the end of
  the text count as a non-word neighbour.
\<close>

definition is_word_char :: "char \<Rightarrow> bool" where
  "is_word_char c =
     (let n = (of_char c :: nat) in
        (48 \<le> n \<and> n \<le> 57) \<or> (65 \<le> n \<and> n \<le> 90) \<or> (97 \<le> n \<and> n \<le> 122) \<or> n = 95)"

definition is_word_opt :: "char option \<Rightarrow> bool" where
  "is_word_opt x = (case x of None \<Rightarrow> False | Some c \<Rightarrow> is_word_char c)"

definition word_boundary :: "char option \<Rightarrow> char option \<Rightarrow> bool" where
  "word_boundary before after = (is_word_opt before \<noteq> is_word_opt after)"

definition first_char :: "string \<Rightarrow> char option" where
  "first_char s = (case s of [] \<Rightarrow> None | c # _ \<Rightarrow> Some c)"

definition branch_tokens :: "string list" where
  "branch_tokens = [''if'', ''for'', ''while'', ''case'', ''catch'', ''&&'', ''||'']"

text \<open>
  One attempt of the pattern at a position: \<open>before\<close> is the character left of the
  position, \<open>s\<close> the text from the position on. The alternatives are tried in the order
  they are written; an alternative whose closing \<^verbatim>\<open>\b\<close> fails is abandoned for
  the next one. The result is the length of the match.
\<close>

definition token_matches :: "string \<Rightarrow> string \<Rightarrow> bool" where
  "token_matches s tok =
     (prefix tok s \<and>
      word_boundary (if tok = [] then None else Some (last tok)) (first_char (drop (length tok) s)))"

definition match_here :: "char option \<Rightarrow> string \<Rightarrow> nat option" where
  "match_here before s =
     (if word_boundary before (first_char s)
      then map_option length (find (token_matches s) branch_tokens)
      else None)"

text \<open>
  The global scan of \<^verbatim>\<open>String.prototype.match\<close> with the \<^verbatim>\<open>g\<close> flag: matches are
  taken left to right and do not overlap; after a match of length \<open>n\<close> the scan resumes
  right behind it, which is written here as skipping the \<open>n - 1\<close> following positions.
\<close>

fun count_matches :: "nat \<Rightarrow> char option \<Rightarrow> string \<Rightarrow> nat" where
  "count_matches skip before [] = 0"
| "count_matches skip before (c # cs) =
     (if 0 < skip then count_matches (skip - 1) (Some c) cs
      else (case match_here before (c # cs) of
              Some n \<Rightarrow> Suc (count_matches (n - 1) (Some c) cs)
            | None \<Rightarrow> count_matches 0 (Some c) cs))"

definition complexity_of :: "string \<Rightarrow> nat" where
  "complexity_of content = count_matches 0 None content + 1"


text \<open>\<^verbatim>\<open>out.split("\n").filter(Boolean).length\<close> over the output of
  \<^verbatim>\<open>git log --oneline -- file\<close>; a failing command leaves \<^verbatim>\<open>commits = 0\<close>.\<close>

definition commits_of :: "string option \<Rightarrow> nat" where
  "commits_of out =
     (case out of
        None \<Rightarrow> 0
      | Some text \<Rightarrow> length (filter (\<lambda>seg. seg \<noteq> []) (split_on newline text)))"

subsection \<open>The \<^verbatim>\<open>path\<close> module, on the paths the walk produces\<close>

text \<open>
  POSIX flavour (\<^verbatim>\<open>path.sep\<close> is \<^verbatim>\<open>/\<close>). The root is an absolute, normalised path;
  directory entry names are non-empty and contain no separator. On such arguments the
  functions of Node's \<^verbatim>\<open>path\<close> module reduce to the following.
\<close>

definition sep :: char where
  "sep = CHR ''/''"

definition path_join :: "string \<Rightarrow> string \<Rightarrow> string" where
  "path_join dir name = (if dir = [sep] then dir @ name else dir @ [sep] @ name)"

definition path_relative :: "string \<Rightarrow> string \<Rightarrow> string" where
  "path_relative from to =
     (let pre = (if from = [sep] then from else from @ [sep])
      in if prefix pre to then drop (length pre) to else to)"

definition path_basename :: "string \<Rightarrow> string" where
  "path_basename p = last (split_on sep p)"

definition path_dirname :: "string \<Rightarrow> string" where
  "path_dirname p =
     (let parts = split_on sep p
      in if length parts \<le> 1 then ''.''
         else (let d = join_with [sep] (butlast parts) in if d = [] then [sep] else d))"

subsection \<open>The directory walk (lines 421-443, 1122-1150)\<close>

text \<open>
  A directory listing as \<^verbatim>\<open>fs.readdirSync(dir, { withFileTypes: true })\<close> returns it:
  \<open>DirEnt name None\<close> is a directory whose own listing throws, \<open>FileEnt\<close> any entry
  that is not a directory.
\<close>

datatype dirent = FileEnt string | DirEnt string "dirent list option"

definition scan_exts :: "string list" where
  "scan_exts = [''js'', ''ts'', ''jsx'', ''tsx'', ''py'', ''java'', ''cpp'', ''c'', ''cs'', ''php'',
                ''rb'', ''go'', ''rs'', ''html'', ''css'', ''json'', ''sh'', ''yml'', ''yaml'']"

definition parse_exts :: "string list" where
  "parse_exts = [''js'', ''ts'', ''jsx'', ''tsx'']"

text \<open>\<^verbatim>\<open>/\.(e1|e2|...)$/i.test(name)\<close>\<close>

definition has_ext :: "string list \<Rightarrow> string \<Rightarrow> bool" where
  "has_ext exts name = list_ex (\<lambda>e. endsWith (map lower_char name) (CHR ''.'' # e)) exts"

definition excluded_dirs :: "string list" where
  "excluded_dirs = [''node_modules'', ''.git'', ''dist'', ''out'', ''.next'', ''build'']"

text \<open>
  \<open>walk ig base dir entries\<close> is the loop of \<^verbatim>\<open>walk(dir)\<close> over the entries read from
  \<open>dir\<close>, with \<open>base\<close> the workspace root; the result lists the paths pushed onto \<^verbatim>\<open>files\<close>, in the order of the pushes.
  \<open>ig\<close> is \<^verbatim>\<open>ig.ignores\<close>.
\<close>

function walk :: "(string \<Rightarrow> bool) \<Rightarrow> string \<Rightarrow> string \<Rightarrow> dirent list \<Rightarrow> string list" where
  "walk ig base dir [] = []"
| "walk ig base dir (FileEnt name # es) =
     (let full = path_join dir name; rel = path_relative base full
      in if ig rel then walk ig base dir es
         else if has_ext scan_exts name then full # walk ig base dir es
         else walk ig base dir es)"
| "walk ig base dir (DirEnt name None # es) = walk ig base dir es"
| "walk ig base dir (DirEnt name (Some sub) # es) =
     (let full = path_join dir name; rel = path_relative base full
      in if ig rel then walk ig base dir es
         else if name \<notin> set excluded_dirs then walk ig base full sub @ walk ig base dir es
         else walk ig base dir es)"
  by pat_completeness auto
termination
  by (relation "measure (\<lambda>(ig, base, dir, es). size_list size es)") auto

subsection \<open>The world a build reads\<close>

text \<open>The path \<^verbatim>\<open>.gitignore\<close> of the root: \<^verbatim>\<open>fs.existsSync\<close> is false, or it is true
  and \<^verbatim>\<open>fs.readFileSync\<close> throws (a directory, a file without read permission), or
  the file is read.\<close>

datatype gitignore_file = NoGitignore | GitignoreUnreadable | Gitignore string

record world =
  rootPath :: string
  gitignore :: gitignore_file
  ignoreRules :: "string \<Rightarrow> string \<Rightarrow> bool"
  entries :: "dirent list option"
  readFile :: "string \<Rightarrow> string option"
  gitLog :: "string \<Rightarrow> string option"
  parseImports :: "string \<Rightarrow> string list"

text \<open>
  \<open>rootPath\<close> is \<^verbatim>\<open>workspaceFolders[0].uri.fsPath\<close> and \<open>entries\<close> the directory tree below it
  (\<open>None\<close>: the root cannot be listed). \<open>ignoreRules text\<close> is \<^verbatim>\<open>ig.ignores\<close> of the
  \<^verbatim>\<open>ignore\<close> package after \<^verbatim>\<open>ig.add(text)\<close>. \<open>readFile\<close> is \<^verbatim>\<open>fs.readFileSync(f, "utf8")\<close> and
  \<open>gitLog\<close> the output of the \<^verbatim>\<open>git log\<close> command, \<open>None\<close> where the call throws.
  \<open>parseImports content\<close> is the content of the array \<^verbatim>\<open>imports\<close> after
  \<^verbatim>\<open>babelParser.parse\<close> and \<^verbatim>\<open>traverse\<close> ran inside their \<^verbatim>\<open>try\<close> block: the
  specifiers in traversal order, and \<open>[]\<close> when the parser throws.
\<close>

text \<open>\<^verbatim>\<open>walk(root)\<close> with the loaded ignore rules \<open>ig\<close>.\<close>

definition scan_files :: "world \<Rightarrow> (string \<Rightarrow> bool) \<Rightarrow> string list" where
  "scan_files w ig =
     (case entries w of
        None \<Rightarrow> []
      | Some es \<Rightarrow> walk ig (rootPath w) (rootPath w) es)"


subsection \<open>The graph store\<close>

text \<open>
  \<^verbatim>\<open>new Graph()\<close> of graphology with its default options: a mixed graph that is not a
  multigraph and allows self loops. Keys and edges are kept in insertion order.
  \<^verbatim>\<open>addNode\<close> throws a \<^verbatim>\<open>UsageGraphError\<close> on a key that is present;
  \<^verbatim>\<open>addEdge\<close> throws a \<^verbatim>\<open>NotFoundGraphError\<close> when an endpoint is missing and a
  \<^verbatim>\<open>UsageGraphError\<close> when the source already has an edge to the target;
  \<^verbatim>\<open>getNodeAttribute\<close> throws a \<^verbatim>\<open>NotFoundGraphError\<close> on a key that is absent.
  A throw inside the \<^verbatim>\<open>async\<close> function \<^verbatim>\<open>buildRepoGraph\<close> rejects the promise
  it returns; the model returns the error on the left. Besides the two errors of the
  graph there are the \<^verbatim>\<open>TypeError\<close> of reading a property of \<^verbatim>\<open>undefined\<close> and the
  error \<^verbatim>\<open>fs.readFileSync\<close> throws outside a \<^verbatim>\<open>try\<close> block.
\<close>

datatype error = TypeError | FsError | UsageGraphError | NotFoundGraphError

text \<open>
  The presentation hints are kept as the arguments of the calls that compute them:
  \<open>color\<close> holds the arguments of \<^verbatim>\<open>clusterColor\<close>, \<open>FolderSize depth\<close> stands for
  \<^verbatim>\<open>12 + Math.max(0, 3 - depth) * 2\<close> and \<open>FileSize loc\<close> for
  \<^verbatim>\<open>Math.max(4, Math.min(14, 5 + Math.log10(loc + 1)))\<close>.
\<close>

datatype size_hint = FolderSize nat | FileSize nat

record node =
  node_id :: string
  label :: string
  cluster :: string
  path :: string
  loc :: nat
  complexity :: nat
  commits :: nat
  color :: "string \<times> nat"
  node_size :: size_hint

text \<open>An edge with the \<^verbatim>\<open>color\<close> attribute given at its call site, which is what tells
  the kinds of edges apart in the source.\<close>

type_synonym edge = "string \<times> string \<times> string"

record graph =
  g_nodes :: "(string \<times> node) list"
  g_edges :: "edge list"

definition empty_graph :: graph where
  "empty_graph = \<lparr>g_nodes = [], g_edges = []\<rparr>"

definition hasNode :: "graph \<Rightarrow> string \<Rightarrow> bool" where
  "hasNode g k = (k \<in> set (map fst (g_nodes g)))"

definition hasEdge :: "graph \<Rightarrow> string \<Rightarrow> string \<Rightarrow> bool" where
  "hasEdge g s t = ((s, t) \<in> set (map (\<lambda>(a, b, c). (a, b)) (g_edges g)))"

definition addNode :: "graph \<Rightarrow> string \<Rightarrow> node \<Rightarrow> error + graph" where
  "addNode g k attrs =
     (if hasNode g k then Inl UsageGraphError
      else Inr (g\<lparr>g_nodes := g_nodes g @ [(k, attrs)]\<rparr>))"

definition addEdge :: "graph \<Rightarrow> string \<Rightarrow> string \<Rightarrow> string \<Rightarrow> error + graph" where
  "addEdge g s t col =
     (if \<not> hasNode g s then Inl NotFoundGraphError
      else if \<not> hasNode g t then Inl NotFoundGraphError
      else if hasEdge g s t then Inl UsageGraphError
      else Inr (g\<lparr>g_edges := g_edges g @ [(s, t, col)]\<rparr>))"

definition getNodeAttribute :: "graph \<Rightarrow> string \<Rightarrow> (node \<Rightarrow> 'a) \<Rightarrow> error + 'a" where
  "getNodeAttribute g k attr =
     (case map_of (g_nodes g) k of
        None \<Rightarrow> Inl NotFoundGraphError
      | Some attrs \<Rightarrow> Inr (attr attrs))"

subsection \<open>Sequencing with exceptions\<close>

definition thenE :: "error + 'a \<Rightarrow> ('a \<Rightarrow> error + 'b) \<Rightarrow> error + 'b" where
  "thenE r k = (case r of Inl e \<Rightarrow> Inl e | Inr x \<Rightarrow> k x)"

text \<open>A \<^verbatim>\<open>for ... of\<close> loop whose body may throw.\<close>

fun foldE :: "('s \<Rightarrow> 'a \<Rightarrow> error + 's) \<Rightarrow> 's \<Rightarrow> 'a list \<Rightarrow> error + 's" where
  "foldE body s [] = Inr s"
| "foldE body s (x # xs) =
     (case body s x of Inl e \<Rightarrow> Inl e | Inr s' \<Rightarrow> foldE body s' xs)"

subsection \<open>Loading the ignore rules (lines 415-419, 1116-1120)\<close>

text \<open>
  \<^verbatim>\<open>const ig = ignore(); if (fs.existsSync(gitignorePath)) { ig.add(fs.readFileSync(gitignorePath, "utf8")); }\<close>

  The read is not inside a \<^verbatim>\<open>try\<close> block. Without rules \<^verbatim>\<open>ig.ignores\<close> is false
  for every path.
\<close>

definition load_ignore :: "world \<Rightarrow> error + (string \<Rightarrow> bool)" where
  "load_ignore w =
     (case gitignore w of
        NoGitignore \<Rightarrow> Inr (\<lambda>rel. False)
      | GitignoreUnreadable \<Rightarrow> Inl FsError
      | Gitignore text \<Rightarrow> Inr (ignoreRules w text))"

subsection \<open>Numbers: the quotient and \<^verbatim>\<open>toFixed(2)\<close>\<close>

text \<open>
  A number of the host language is an IEEE 754 double. The counts of this program
  are integers below \<open>2 ^ 53\<close> and exact. The quotient \<^verbatim>\<open>a / b\<close> of two counts is the
  double nearest to the rational quotient, ties to the even mantissa; it lies in the
  normal range, so the bounds of the exponent are not modelled. \<open>b\<close> is positive at
  the only call.
\<close>

definition pow2 :: "int \<Rightarrow> rat" where
  "pow2 k = (if 0 \<le> k then 2 ^ nat k else 1 / 2 ^ nat (- k))"

definition round_half_even :: "rat \<Rightarrow> int" where
  "round_half_even x =
     (let f = \<lfloor>x\<rfloor>; r = x - of_int f
      in if r < 1 / 2 then f
         else if 1 / 2 < r then f + 1
         else if even f then f else f + 1)"

text \<open>The number of binary digits of a positive integer.\<close>

function bit_length :: "int \<Rightarrow> nat" where
  "bit_length n = (if n \<le> 0 then 0 else Suc (bit_length (n div 2)))"
  by pat_completeness auto
termination
  by (relation "measure nat") auto

declare bit_length.simps [simp del]

text \<open>The integer \<open>e\<close> with \<open>2 ^ e \<le> a / b < 2 ^ (e + 1)\<close>, for positive \<open>a\<close> and \<open>b\<close>.\<close>

definition binary_exponent :: "int \<Rightarrow> int \<Rightarrow> int" where
  "binary_exponent a b =
     (let e = int (bit_length a) - int (bit_length b)
      in if pow2 e \<le> of_int a / of_int b then e else e - 1)"

definition js_divide :: "int \<Rightarrow> int \<Rightarrow> rat" where
  "js_divide a b =
     (if a = 0 then 0
      else (let e = binary_exponent a b
            in of_int (round_half_even (of_int a / of_int b * pow2 (52 - e))) * pow2 (e - 52)))"

text \<open>
  \<^verbatim>\<open>x.toFixed(2)\<close> for a double \<open>0 \<le> x < 10 ^ 21\<close>: the integer \<open>n\<close> for which
  \<open>n / 100 - x\<close> is closest to zero, the larger one of two, written in decimal with
  a point before its last two digits.
\<close>

definition digit_char :: "int \<Rightarrow> char" where
  "digit_char d = char_of (48 + d)"

function decimal :: "int \<Rightarrow> string" where
  "decimal n = (if n < 10 then [digit_char n] else decimal (n div 10) @ [digit_char (n mod 10)])"
  by pat_completeness auto
termination
  by (relation "measure nat") auto

declare decimal.simps [simp del]

definition toFixed2 :: "rat \<Rightarrow> string" where
  "toFixed2 x =
     (let n = \<lfloor>x * 100 + 1 / 2\<rfloor>
      in decimal (n div 100) @ ''.'' @ [digit_char (n mod 100 div 10), digit_char (n mod 10)])"

subsection \<open>The basename index and the resolution of a specifier\<close>

text \<open>\<^verbatim>\<open>new Map<string, string>()\<close>: \<^verbatim>\<open>set\<close> on a present key replaces the value in
  place, on a new key appends the entry; iteration follows this order.\<close>

type_synonym file_index = "(string \<times> string) list"

fun index_set :: "file_index \<Rightarrow> string \<Rightarrow> string \<Rightarrow> file_index" where
  "index_set [] k v = [(k, v)]"
| "index_set ((k', v') # m) k v =
     (if k' = k then (k, v) # m else (k', v') # index_set m k v)"

definition index_get :: "file_index \<Rightarrow> string \<Rightarrow> string option" where
  "index_get m k = map_of m k"

text \<open>\<^verbatim>\<open>a || b\<close> on values that are a string or \<^verbatim>\<open>undefined\<close>: the empty string and
  \<^verbatim>\<open>undefined\<close> are falsy.\<close>

definition truthy :: "string option \<Rightarrow> bool" where
  "truthy v = (case v of None \<Rightarrow> False | Some s \<Rightarrow> s \<noteq> [])"

definition js_or :: "string option \<Rightarrow> string option \<Rightarrow> string option" where
  "js_or a b = (if truthy a then a else b)"

text \<open>
  Lines 553-557 and 1225-1229:
  \<^verbatim>\<open>fileIndex.get(dep) || fileIndex.get(dep + ".js") || fileIndex.get(dep + ".ts") ||
  Array.from(fileIndex.entries()).find(([k]) => dep.endsWith(k))?.[1]\<close>
\<close>

definition resolve :: "file_index \<Rightarrow> string \<Rightarrow> string option" where
  "resolve fileIndex dep =
     js_or (index_get fileIndex dep)
       (js_or (index_get fileIndex (dep @ ''.js''))
          (js_or (index_get fileIndex (dep @ ''.ts''))
             (map_option snd (find (\<lambda>(k, v). endsWith dep k) fileIndex))))"

text \<open>Lines 1155-1157: the index is filled before the loop over the files starts.\<close>

definition build_index :: "string list \<Rightarrow> file_index" where
  "build_index files = foldl (\<lambda>m f. index_set m (path_basename f) f) [] files"

subsection \<open>The result of a build\<close>

text \<open>\<open>avgComplexity\<close> is the string \<^verbatim>\<open>toFixed(2)\<close> returns; \<open>stats = None\<close> is the
  object \<^verbatim>\<open>{}\<close> without any field.\<close>

record stats =
  avgComplexity :: string
  mostEdited :: "(string \<times> nat) list"
  totalFiles :: nat
  clusters :: nat

record repo_graph =
  nodes :: "node list"
  edges :: "(string \<times> string) list"
  stats :: "stats option"

definition out_nodes :: "graph \<Rightarrow> node list" where
  "out_nodes g = map (\<lambda>(k, attrs). attrs\<lparr>node_id := k\<rparr>) (g_nodes g)"

definition out_edges :: "graph \<Rightarrow> (string \<times> string) list" where
  "out_edges g = map (\<lambda>(s, t, col). (s, t)) (g_edges g)"

text \<open>\<^verbatim>\<open>files.reduce((acc, f) => acc + (graph.getNodeAttribute(f, "complexity") || 0), 0)\<close>,
  divided by \<^verbatim>\<open>files.length\<close>, and \<open>0\<close> for no files; then \<^verbatim>\<open>avgComplexity.toFixed(2)\<close>.
  A complexity is a number, so \<^verbatim>\<open>|| 0\<close> leaves it as it is.\<close>

definition sum_complexity :: "graph \<Rightarrow> string list \<Rightarrow> error + nat" where
  "sum_complexity g files =
     foldE (\<lambda>acc f. thenE (getNodeAttribute g f complexity) (\<lambda>c. Inr (acc + c))) 0 files"

definition avg_complexity :: "graph \<Rightarrow> string list \<Rightarrow> error + string" where
  "avg_complexity g files =
     (if 0 < length files
      then thenE (sum_complexity g files) (\<lambda>tot. Inr (toFixed2 (js_divide (int tot) (int (length files)))))
      else Inr (toFixed2 0))"

text \<open>\<^verbatim>\<open>sort((a, b) => commits(b) - commits(a))\<close>: \<^verbatim>\<open>Array.prototype.sort\<close> is stable,
  so nodes of equal churn keep the order of \<^verbatim>\<open>graph.nodes()\<close>.\<close>

definition by_commits_desc :: "node list \<Rightarrow> node list" where
  "by_commits_desc ns = sort_key (\<lambda>n. - int (commits n)) ns"

definition entry_of :: "node \<Rightarrow> string \<times> nat" where
  "entry_of n = (label n, commits n)"

text \<open>\<^verbatim>\<open>[...new Set(nodes.map((n) => n.cluster))].length\<close>\<close>

definition cluster_count :: "node list \<Rightarrow> nat" where
  "cluster_count ns = length (remdups (map cluster ns))"


subsection \<open>The build of lines 1107-1269\<close>

text \<open>\<^verbatim>\<open>rel.includes(path.sep) ? rel.split(path.sep)[0] : "(root)"\<close>\<close>

definition top_cluster :: "string \<Rightarrow> string" where
  "top_cluster rel =
     (if sep \<in> set rel
      then (case split_on sep rel of [] \<Rightarrow> [] | p # _ \<Rightarrow> p)
      else ''(root)'')"

definition file_node3 :: "world \<Rightarrow> string \<Rightarrow> string \<Rightarrow> node" where
  "file_node3 w file content =
     (let cl = top_cluster (path_relative (rootPath w) file)
      in \<lparr>node_id = file, label = path_basename file, cluster = cl, path = file,
          loc = loc_of content, complexity = complexity_of content,
          commits = commits_of (gitLog w file), color = (cl, 1),
          node_size = FileSize (loc_of content)\<rparr>)"

text \<open>Lines 1224-1233, the body of the loop over \<^verbatim>\<open>imports\<close>.\<close>

definition add_import3 :: "file_index \<Rightarrow> string \<Rightarrow> graph \<Rightarrow> string \<Rightarrow> error + graph" where
  "add_import3 fileIndex file g dep =
     (case resolve fileIndex dep of
        None \<Rightarrow> Inr g
      | Some depFile \<Rightarrow>
          if depFile \<noteq> [] \<and> hasNode g depFile \<and> \<not> hasEdge g file depFile
          then addEdge g file depFile ''#ccc''
          else Inr g)"

text \<open>Lines 1159-1234, the body of the loop over \<^verbatim>\<open>files\<close>; a file that cannot be read
  is skipped by \<^verbatim>\<open>continue\<close>.\<close>

definition process_file3 :: "world \<Rightarrow> file_index \<Rightarrow> graph \<Rightarrow> string \<Rightarrow> error + graph" where
  "process_file3 w fileIndex g file =
     (case readFile w file of
        None \<Rightarrow> Inr g
      | Some content \<Rightarrow>
          (let imports = (if has_ext parse_exts file then parseImports w content else [])
           in thenE (if \<not> hasNode g file then addNode g file (file_node3 w file content)
                     else Inr g)
                (\<lambda>g1. foldE (add_import3 fileIndex file) g1 imports)))"

definition most_edited3 :: "graph \<Rightarrow> (string \<times> nat) list" where
  "most_edited3 g = map entry_of (take 5 (by_commits_desc (map snd (g_nodes g))))"

text \<open>Lines 1122-1268: the build once the root and the ignore rules are there.\<close>

definition graph_and_stats3 :: "world \<Rightarrow> (string \<Rightarrow> bool) \<Rightarrow> error + repo_graph" where
  "graph_and_stats3 w ig =
     (let files = scan_files w ig;
          fileIndex = build_index files
      in thenE (foldE (process_file3 w fileIndex) empty_graph files)
           (\<lambda>g. thenE (avg_complexity g files)
              (\<lambda>avg. Inr \<lparr>nodes = out_nodes g, edges = out_edges g,
                          stats = Some \<lparr>avgComplexity = avg,
                                        mostEdited = most_edited3 g,
                                        totalFiles = length files,
                                        clusters = cluster_count (out_nodes g)\<rparr>\<rparr>)))"

text \<open>
  \<open>workspaceFolders\<close> is \<^verbatim>\<open>vscode.workspace.workspaceFolders\<close>: \<^verbatim>\<open>undefined\<close> or an
  array. On an empty array \<^verbatim>\<open>workspaceFolders[0].uri\<close> reads a property of
  \<^verbatim>\<open>undefined\<close>. Only the first folder is built.
\<close>

definition buildRepoGraph3 :: "world list option \<Rightarrow> error + repo_graph" where
  "buildRepoGraph3 workspaceFolders =
     (case workspaceFolders of
        None \<Rightarrow> Inr \<lparr>nodes = [], edges = [], stats = None\<rparr>
      | Some [] \<Rightarrow> Inl TypeError
      | Some (w # others) \<Rightarrow> thenE (load_ignore w) (graph_and_stats3 w))"

subsection \<open>The build of lines 408-602, with folder nodes\<close>

text \<open>\<^verbatim>\<open>new Set<string>()\<close> in insertion order.\<close>

definition set_add :: "string list \<Rightarrow> string \<Rightarrow> string list" where
  "set_add xs x = (if x \<in> set xs then xs else xs @ [x])"

text \<open>Lines 450-456: every proper ancestor folder of every file, as a path relative
  to the root.\<close>

definition add_ancestors :: "string \<Rightarrow> string list \<Rightarrow> string \<Rightarrow> string list" where
  "add_ancestors base folderSet f =
     (let parts = split_on sep (path_relative base f)
      in foldl (\<lambda>fs i. set_add fs (join_with [sep] (take (i + 1) parts)))
           folderSet [0 ..< length parts - 1])"

definition collect_folders :: "string \<Rightarrow> string list \<Rightarrow> string list" where
  "collect_folders base files = foldl (add_ancestors base) [] files"

text \<open>The folder glyph of the label, U+1F4C1, followed by a space.\<close>

definition folder_prefix :: string where
  "folder_prefix = [CHR 0xF0, CHR 0x9F, CHR 0x93, CHR 0x81, CHR '' '']"

definition folder_node :: "string \<Rightarrow> string \<Rightarrow> node" where
  "folder_node base folder =
     (let depth = length (split_on sep folder)
      in \<lparr>node_id = folder, label = folder_prefix @ path_basename folder, cluster = folder,
          path = path_join base folder, loc = 0, complexity = 0, commits = 0,
          color = (folder, depth), node_size = FolderSize depth\<rparr>)"

text \<open>Lines 459-475.\<close>

definition add_folder_node :: "string \<Rightarrow> graph \<Rightarrow> string \<Rightarrow> error + graph" where
  "add_folder_node base g folder =
     (if \<not> hasNode g folder then addNode g folder (folder_node base folder) else Inr g)"

text \<open>Lines 478-483.\<close>

definition hierarchy_color :: string where
  "hierarchy_color = ''rgba(255,255,255,0.15)''"

definition add_folder_edge :: "graph \<Rightarrow> string \<Rightarrow> error + graph" where
  "add_folder_edge g folder =
     (let parent = path_dirname folder
      in if parent \<noteq> [] \<and> parent \<noteq> ''.'' \<and> hasNode g parent
         then addEdge g parent folder hierarchy_color
         else Inr g)"

text \<open>\<^verbatim>\<open>path.dirname(rel) || "(root)"\<close>\<close>

definition owning_folder :: "string \<Rightarrow> string \<Rightarrow> string" where
  "owning_folder base f =
     (let d = path_dirname (path_relative base f) in if d = [] then ''(root)'' else d)"

text \<open>\<^verbatim>\<open>try { content = fs.readFileSync(f, "utf8"); } catch {}\<close> leaves \<^verbatim>\<open>content\<close>
  empty.\<close>

definition content_or_empty :: "world \<Rightarrow> string \<Rightarrow> string" where
  "content_or_empty w f = (case readFile w f of None \<Rightarrow> [] | Some content \<Rightarrow> content)"

definition file_node2 :: "world \<Rightarrow> string \<Rightarrow> node" where
  "file_node2 w f =
     (let content = content_or_empty w f;
          folder = owning_folder (rootPath w) f
      in \<lparr>node_id = f, label = path_basename f, cluster = folder, path = f,
          loc = loc_of content, complexity = complexity_of content,
          commits = commits_of (gitLog w f),
          color = (folder, length (split_on sep folder) + 1),
          node_size = FileSize (loc_of content)\<rparr>)"

definition contains_color :: string where
  "contains_color = ''rgba(255,255,255,0.2)''"

text \<open>Lines 486-519, the body of the loop that adds the file nodes; the state is the
  graph and the index.\<close>

definition add_file2 ::
  "world \<Rightarrow> graph \<times> file_index \<Rightarrow> string \<Rightarrow> error + graph \<times> file_index" where
  "add_file2 w st f =
     (case st of (g, fileIndex) \<Rightarrow>
        (let fileIndex' = index_set fileIndex (path_basename f) f;
             folder = owning_folder (rootPath w) f
         in thenE (addNode g f (file_node2 w f))
              (\<lambda>g1. thenE (if hasNode g1 folder then addEdge g1 folder f contains_color
                            else Inr g1)
                 (\<lambda>g2. Inr (g2, fileIndex')))))"

definition intra_color :: string where
  "intra_color = ''rgba(255,255,255,0.08)''"

definition inter_color :: string where
  "inter_color = ''rgba(78,161,255,0.45)''"

definition rollup_color :: string where
  "rollup_color = ''rgba(78,161,255,0.6)''"

text \<open>Lines 552-568, the body of the loop over \<^verbatim>\<open>imports\<close>.\<close>

definition add_import2 ::
  "string \<Rightarrow> file_index \<Rightarrow> string \<Rightarrow> graph \<Rightarrow> string \<Rightarrow> error + graph" where
  "add_import2 base fileIndex file g dep =
     (case resolve fileIndex dep of
        None \<Rightarrow> Inr g
      | Some depFile \<Rightarrow>
          if depFile \<noteq> [] \<and> hasNode g depFile
          then (let fromFolder = owning_folder base file;
                    toFolder = owning_folder base depFile;
                    intra = (fromFolder = toFolder)
                in thenE (addEdge g file depFile (if intra then intra_color else inter_color))
                     (\<lambda>g1. if \<not> intra \<and> hasNode g1 fromFolder \<and> hasNode g1 toFolder
                            then addEdge g1 fromFolder toFolder rollup_color
                            else Inr g1))
          else Inr g)"

text \<open>Lines 522-569, the body of the loop that parses the imports.\<close>

definition link_file2 :: "world \<Rightarrow> file_index \<Rightarrow> graph \<Rightarrow> string \<Rightarrow> error + graph" where
  "link_file2 w fileIndex g file =
     (let content = content_or_empty w file;
          imports = (if has_ext parse_exts file then parseImports w content else [])
      in foldE (add_import2 (rootPath w) fileIndex file) g imports)"

definition most_edited2 :: "graph \<Rightarrow> (string \<times> nat) list" where
  "most_edited2 g =
     map entry_of (take 5 (by_commits_desc (filter (\<lambda>n. 0 < commits n) (map snd (g_nodes g)))))"

text \<open>Lines 421-601: the build once the root and the ignore rules are there.\<close>

definition graph_and_stats2 :: "world \<Rightarrow> (string \<Rightarrow> bool) \<Rightarrow> error + repo_graph" where
  "graph_and_stats2 w ig =
     (let files = scan_files w ig;
          folderSet = collect_folders (rootPath w) files
      in thenE (foldE (add_folder_node (rootPath w)) empty_graph folderSet)
           (\<lambda>g1. thenE (foldE add_folder_edge g1 folderSet)
              (\<lambda>g2. thenE (foldE (add_file2 w) (g2, []) files)
                 (\<lambda>(g3, fileIndex). thenE (foldE (link_file2 w fileIndex) g3 files)
                    (\<lambda>g. thenE (avg_complexity g files)
                       (\<lambda>avg. Inr \<lparr>nodes = out_nodes g, edges = out_edges g,
                                   stats = Some \<lparr>avgComplexity = avg,
                                                 mostEdited = most_edited2 g,
                                                 totalFiles = length files,
                                                 clusters = cluster_count (out_nodes g)\<rparr>\<rparr>))))))"

definition buildRepoGraph2 :: "world list option \<Rightarrow> error + repo_graph" where
  "buildRepoGraph2 workspaceFolders =
     (case workspaceFolders of
        None \<Rightarrow> Inr \<lparr>nodes = [], edges = [], stats = None\<rparr>
      | Some [] \<Rightarrow> Inl TypeError
      | Some (w # others) \<Rightarrow> thenE (load_ignore w) (graph_and_stats2 w))"

subsection \<open>Accessors of a build's outcome\<close>

definition edges_of :: "error + repo_graph \<Rightarrow> (string \<times> string) list option" where
  "edges_of res = (case res of Inl e \<Rightarrow> None | Inr r \<Rightarrow> Some (edges r))"

definition node_ids_of :: "error + repo_graph \<Rightarrow> string list option" where
  "node_ids_of res = (case res of Inl e \<Rightarrow> None | Inr r \<Rightarrow> Some (map node_id (nodes r)))"

definition stats_of :: "error + repo_graph \<Rightarrow> stats option" where
  "stats_of res = (case res of Inl e \<Rightarrow> None | Inr r \<Rightarrow> stats r)"

text \<open>The paths the walk collects for a world, once its ignore rules are loaded.\<close>

definition scanned_files_of :: "world \<Rightarrow> string list option" where
  "scanned_files_of w =
     (case load_ignore w of Inl e \<Rightarrow> None | Inr ig \<Rightarrow> Some (scan_files w ig))"

section \<open>Invariants of the graph under construction\<close>

text \<open>No key and no ordered pair of endpoints occurs twice.\<close>

definition simple_graph :: "graph \<Rightarrow> bool" where
  "simple_graph g =
     (distinct (map fst (g_nodes g)) \<and> distinct (map (\<lambda>(a, b, c). (a, b)) (g_edges g)))"

text \<open>Every key is a path that can be read.\<close>

definition readable_keys :: "world \<Rightarrow> graph \<Rightarrow> bool" where
  "readable_keys w g = list_all (\<lambda>k. readFile w k \<noteq> None) (map fst (g_nodes g))"

text \<open>Every node has churn 0, as the folder nodes do.\<close>

definition no_churn :: "graph \<Rightarrow> bool" where
  "no_churn g = list_all (\<lambda>(k, a). commits a = 0) (g_nodes g)"

section \<open>The specification's wording, for comparison\<close>

text \<open>The line count as the specification words it for a text that ends with a
  newline: the number of segments that a newline terminates, and no segment for what
  follows the last newline.\<close>

definition terminated_segments :: "string \<Rightarrow> nat" where
  "terminated_segments content = length (filter (\<lambda>c. c = newline) content)"

text \<open>
  The resolution order in the specification's words, over a list of extensions to
  append: the exact lookup, then the lookup with each extension appended, in order,
  then the first indexed basename that is a suffix of the specifier. A lookup hits
  when it returns a non-empty path.
\<close>

definition resolve_in_order :: "string list \<Rightarrow> file_index \<Rightarrow> string \<Rightarrow> string option" where
  "resolve_in_order exts fileIndex dep =
     (case find truthy (index_get fileIndex dep #
                        map (\<lambda>e. index_get fileIndex (dep @ CHR ''.'' # e)) exts) of
        Some hit \<Rightarrow> hit
      | None \<Rightarrow> map_option snd (find (\<lambda>(k, v). endsWith dep k) fileIndex))"

text \<open>A tree holds a file that matches the extension allowlist, in any directory.\<close>

function any_source_file :: "dirent list \<Rightarrow> bool" where
  "any_source_file [] = False"
| "any_source_file (FileEnt name # es) = (has_ext scan_exts name \<or> any_source_file es)"
| "any_source_file (DirEnt name None # es) = any_source_file es"
| "any_source_file (DirEnt name (Some sub) # es) = (any_source_file sub \<or> any_source_file es)"
  by pat_completeness auto
termination
  by (relation "measure (size_list size)") auto

definition no_source_files :: "world \<Rightarrow> bool" where
  "no_source_files w =
     (case entries w of None \<Rightarrow> True | Some es \<Rightarrow> \<not> any_source_file es)"

section \<open>Concrete repositories\<close>

definition quoted :: "string \<Rightarrow> string" where
  "quoted s = CHR 0x22 # s @ [CHR 0x22]"

text \<open>A stand-in for the \<^verbatim>\<open>ignore\<close> package that ignores the paths its text lists,
  one on a line.\<close>

definition listed_paths :: "string \<Rightarrow> string \<Rightarrow> bool" where
  "listed_paths text rel = (rel \<in> set (split_on newline text))"

text \<open>A parser given by the table of the texts it is run on.\<close>

definition imports_table :: "(string \<times> string list) list \<Rightarrow> string \<Rightarrow> string list" where
  "imports_table tab content = (case map_of tab content of None \<Rightarrow> [] | Some deps \<Rightarrow> deps)"

text \<open>The root holds \<^verbatim>\<open>a.ts\<close>, which imports \<^verbatim>\<open>"./b"\<close> and \<^verbatim>\<open>"left-pad"\<close>, and
  \<^verbatim>\<open>b.ts\<close>.\<close>

definition text_a :: string where
  "text_a = ''import '' @ quoted ''./b'' @ ''; import pad from '' @ quoted ''left-pad'' @ '';''"

definition text_b :: string where
  "text_b = ''export const b = 1;''"

definition world_ab :: world where
  "world_ab =
     \<lparr>rootPath = ''/r'', gitignore = NoGitignore, ignoreRules = listed_paths,
      entries = Some [FileEnt ''a.ts'', FileEnt ''b.ts''],
      readFile = map_of [(''/r/a.ts'', text_a), (''/r/b.ts'', text_b)],
      gitLog = map_of [],
      parseImports = imports_table [(text_a, [''./b'', ''left-pad''])]\<rparr>"

text \<open>\<^verbatim>\<open>b.ts\<close> imports two names from \<^verbatim>\<open>"./a.ts"\<close> in two declarations.\<close>

definition text_twice :: string where
  "text_twice = ''import { x } from '' @ quoted ''./a.ts'' @ ''; import { y } from ''
                @ quoted ''./a.ts'' @ '';''"

definition world_twice :: world where
  "world_twice =
     \<lparr>rootPath = ''/r'', gitignore = NoGitignore, ignoreRules = listed_paths,
      entries = Some [FileEnt ''a.ts'', FileEnt ''b.ts''],
      readFile = map_of [(''/r/a.ts'', ''export const x = 1, y = 2;''), (''/r/b.ts'', text_twice)],
      gitLog = map_of [],
      parseImports = imports_table [(text_twice, [''./a.ts'', ''./a.ts''])]\<rparr>"

text \<open>\<^verbatim>\<open>src/x.ts\<close> and \<^verbatim>\<open>src/z.ts\<close> both import \<^verbatim>\<open>"y"\<close>, which is \<^verbatim>\<open>lib/y.ts\<close>.\<close>

definition text_uses_y :: string where
  "text_uses_y = ''import { y } from '' @ quoted ''y'' @ '';''"

definition world_crossing :: world where
  "world_crossing =
     \<lparr>rootPath = ''/r'', gitignore = NoGitignore, ignoreRules = listed_paths,
      entries = Some [DirEnt ''lib'' (Some [FileEnt ''y.ts'']),
                      DirEnt ''src'' (Some [FileEnt ''x.ts'', FileEnt ''z.ts''])],
      readFile = map_of [(''/r/lib/y.ts'', ''export const y = 1;''),
                         (''/r/src/x.ts'', text_uses_y), (''/r/src/z.ts'', text_uses_y)],
      gitLog = map_of [],
      parseImports = imports_table [(text_uses_y, [''y''])]\<rparr>"

text \<open>\<^verbatim>\<open>a.ts\<close> cannot be read, \<^verbatim>\<open>b.ts\<close> can.\<close>

definition world_unreadable :: world where
  "world_unreadable =
     \<lparr>rootPath = ''/r'', gitignore = NoGitignore, ignoreRules = listed_paths,
      entries = Some [FileEnt ''a.ts'', FileEnt ''b.ts''],
      readFile = map_of [(''/r/b.ts'', text_b)],
      gitLog = map_of [],
      parseImports = imports_table []\<rparr>"

text \<open>The only file, \<^verbatim>\<open>a.ts\<close>, cannot be read.\<close>

definition world_only_unreadable :: world where
  "world_only_unreadable =
     \<lparr>rootPath = ''/r'', gitignore = NoGitignore, ignoreRules = listed_paths,
      entries = Some [FileEnt ''a.ts''],
      readFile = map_of [],
      gitLog = map_of [],
      parseImports = imports_table []\<rparr>"

text \<open>One readable file outside any repository: \<^verbatim>\<open>git log\<close> fails.\<close>

definition world_no_history :: world where
  "world_no_history =
     \<lparr>rootPath = ''/r'', gitignore = NoGitignore, ignoreRules = listed_paths,
      entries = Some [FileEnt ''a.ts''],
      readFile = map_of [(''/r/a.ts'', text_b)],
      gitLog = map_of [],
      parseImports = imports_table []\<rparr>"

text \<open>A root without any file of the extension allowlist, with a \<^verbatim>\<open>.gitignore\<close>.\<close>

definition world_docs_only :: world where
  "world_docs_only =
     \<lparr>rootPath = ''/r'', gitignore = Gitignore ''docs'', ignoreRules = listed_paths,
      entries = Some [FileEnt ''README.md'', DirEnt ''docs'' (Some [FileEnt ''guide.txt''])],
      readFile = map_of [(''/r/README.md'', ''Orbyt'')],
      gitLog = map_of [],
      parseImports = imports_table []\<rparr>"

text \<open>An index with a \<^verbatim>\<open>.tsx\<close> file only.\<close>

definition index_tsx :: file_index where
  "index_tsx = build_index [''/r/c.tsx'']"

text \<open>The same root, where \<^verbatim>\<open>.gitignore\<close> is a directory.\<close>

definition world_gitignore_dir :: world where
  "world_gitignore_dir = world_docs_only\<lparr>gitignore := GitignoreUnreadable\<rparr>"

section \<open>Properties of the metrics\<close>

lemma split_on_nonempty: "split_on c s \<noteq> []"
  by (induction s) (auto split: list.splits)

lemma length_split_on: "length (split_on c s) = Suc (length (filter (\<lambda>x. x = c) s))"
  by (induction s) (auto split: list.splits)

lemma loc_of_positive: "1 \<le> loc_of content"
  by (simp add: loc_of_def length_split_on)

lemma complexity_of_positive: "1 \<le> complexity_of content"
  by (simp add: complexity_of_def)

section \<open>The formatted average on examples\<close>

text \<open>\<^verbatim>\<open>(201 / 200).toFixed(2)\<close> is \<^verbatim>\<open>"1.00"\<close>: the double nearest to 1.005 lies below
  it. \<^verbatim>\<open>(1 / 8).toFixed(2)\<close> is \<^verbatim>\<open>"0.13"\<close>: 0.125 is a double, and of the two nearest
  integers the larger is taken.\<close>

lemma toFixed2_examples:
  "toFixed2 0 = ''0.00''"
  "toFixed2 (js_divide 2 2) = ''1.00''"
  "toFixed2 (js_divide 7 3) = ''2.33''"
  "toFixed2 (js_divide 201 200) = ''1.00''"
  "toFixed2 (js_divide 1 8) = ''0.13''"
  "toFixed2 (js_divide 12345 10) = ''1234.50''"
  by code_simp+

section \<open>Properties of the walk\<close>

lemma walk_without_source_files:
  "\<not> any_source_file es \<Longrightarrow> walk ig base dir es = []"
  by (induction ig base dir es rule: walk.induct) (auto simp: Let_def)

lemma scan_files_without_source_files:
  "no_source_files w \<Longrightarrow> scan_files w ig = []"
  by (auto simp: no_source_files_def scan_files_def walk_without_source_files
           split: option.splits)

section \<open>Properties of the resolution\<close>

lemma js_or_find_truthy:
  "js_or a b = (case find truthy [a] of Some hit \<Rightarrow> hit | None \<Rightarrow> b)"
  by (simp add: js_or_def)

lemma import_dropped3:
  "\<not> truthy (resolve fileIndex dep) \<Longrightarrow> add_import3 fileIndex file g dep = Inr g"
  by (auto simp: add_import3_def truthy_def split: option.splits)

lemma import_dropped2:
  "\<not> truthy (resolve fileIndex dep) \<Longrightarrow> add_import2 base fileIndex file g dep = Inr g"
  by (auto simp: add_import2_def truthy_def split: option.splits)

section \<open>Properties of loops that may throw\<close>

lemma foldE_cong:
  "(\<And>s x. x \<in> set xs \<Longrightarrow> body s x = body' s x) \<Longrightarrow> foldE body s xs = foldE body' s xs"
  by (induction xs arbitrary: s) (auto split: sum.splits)

lemma thenE_Inr_iff:
  "thenE r k = Inr y \<longleftrightarrow> (\<exists>x. r = Inr x \<and> k x = Inr y)"
  by (cases r) (auto simp: thenE_def)

section \<open>The build of lines 1107-1269 inserts with checks\<close>

lemma addNode_Inr:
  "\<not> hasNode g k \<Longrightarrow> addNode g k a = Inr (g\<lparr>g_nodes := g_nodes g @ [(k, a)]\<rparr>)"
  by (simp add: addNode_def)

lemma addEdge_Inr:
  "hasNode g s \<Longrightarrow> hasNode g t \<Longrightarrow> \<not> hasEdge g s t
   \<Longrightarrow> addEdge g s t col = Inr (g\<lparr>g_edges := g_edges g @ [(s, t, col)]\<rparr>)"
  by (simp add: addEdge_def)

lemma add_import3_total:
  assumes "hasNode g file" "simple_graph g"
  shows "\<exists>g'. add_import3 fileIndex file g dep = Inr g' \<and> g_nodes g' = g_nodes g \<and> simple_graph g'"
  using assms
  by (auto simp: add_import3_def addEdge_Inr simple_graph_def hasEdge_def split: option.splits)

lemma imports3_total:
  assumes "hasNode g file" "simple_graph g"
  shows "\<exists>g'. foldE (add_import3 fileIndex file) g deps = Inr g' \<and> g_nodes g' = g_nodes g \<and> simple_graph g'"
  using assms
proof (induction deps arbitrary: g)
  case Nil
  then show ?case by simp
next
  case (Cons dep deps)
  from add_import3_total [OF Cons.prems, of fileIndex dep] obtain g1 where
    g1: "add_import3 fileIndex file g dep = Inr g1" "g_nodes g1 = g_nodes g" "simple_graph g1"
    by blast
  from g1(2) Cons.prems(1) have "hasNode g1 file"
    by (simp add: hasNode_def)
  from Cons.IH [OF this g1(3)] g1 show ?case
    by auto
qed

lemma process_file3_total:
  assumes "simple_graph g" "readable_keys w g"
  shows "\<exists>g'. process_file3 w fileIndex g file = Inr g' \<and> simple_graph g' \<and> readable_keys w g'
         \<and> (readFile w file \<noteq> None \<longrightarrow> hasNode g' file)
         \<and> (\<forall>k. hasNode g k \<longrightarrow> hasNode g' k)"
proof (cases "readFile w file")
  case None
  with assms show ?thesis
    by (simp add: process_file3_def)
next
  case (Some content)
  define g1 where "g1 = (if hasNode g file then g else g\<lparr>g_nodes := g_nodes g @ [(file, file_node3 w file content)]\<rparr>)"
  have step: "(if \<not> hasNode g file then addNode g file (file_node3 w file content) else Inr g) = Inr g1"
    by (simp add: g1_def addNode_Inr)
  have g1: "hasNode g1 file" "simple_graph g1" "readable_keys w g1" "\<And>k. hasNode g k \<Longrightarrow> hasNode g1 k"
    using assms Some
    by (auto simp: g1_def hasNode_def simple_graph_def readable_keys_def)
  from imports3_total [OF g1(1,2)] obtain g' where
    g': "foldE (add_import3 fileIndex file) g1
           (if has_ext parse_exts file then parseImports w content else []) = Inr g'"
        "g_nodes g' = g_nodes g1" "simple_graph g'"
    by blast
  have "process_file3 w fileIndex g file = Inr g'"
    using Some step g'(1) by (simp add: process_file3_def thenE_def)
  moreover have "readable_keys w g'" "hasNode g' file" "\<And>k. hasNode g k \<Longrightarrow> hasNode g' k"
    using g1 g'(2) by (simp_all add: readable_keys_def hasNode_def)
  ultimately show ?thesis
    using g'(3) Some by auto
qed

lemma files3_total:
  assumes "simple_graph g" "readable_keys w g"
  shows "\<exists>g'. foldE (process_file3 w fileIndex) g files = Inr g' \<and> simple_graph g' \<and> readable_keys w g'
         \<and> (\<forall>f \<in> set files. readFile w f \<noteq> None \<longrightarrow> hasNode g' f)
         \<and> (\<forall>k. hasNode g k \<longrightarrow> hasNode g' k)"
  using assms
proof (induction files arbitrary: g)
  case Nil
  then show ?case by simp
next
  case (Cons f files)
  from process_file3_total [OF Cons.prems, of fileIndex f] obtain g1 where
    g1: "process_file3 w fileIndex g f = Inr g1" "simple_graph g1" "readable_keys w g1"
        "readFile w f \<noteq> None \<longrightarrow> hasNode g1 f" "\<forall>k. hasNode g k \<longrightarrow> hasNode g1 k"
    by blast
  from Cons.IH [OF g1(2,3)] obtain g' where
    g': "foldE (process_file3 w fileIndex) g1 files = Inr g'" "simple_graph g'" "readable_keys w g'"
        "\<forall>f \<in> set files. readFile w f \<noteq> None \<longrightarrow> hasNode g' f" "\<forall>k. hasNode g1 k \<longrightarrow> hasNode g' k"
    by blast
  show ?case
    using g1 g' by auto
qed

lemma sum_complexity_missing:
  assumes "f \<in> set files" "\<not> hasNode g f"
  shows "foldE (\<lambda>acc f. thenE (getNodeAttribute g f complexity) (\<lambda>c. Inr (acc + c))) a files
         = Inl NotFoundGraphError"
  using assms
proof (induction files arbitrary: a)
  case Nil
  then show ?case by simp
next
  case (Cons x files)
  show ?case
  proof (cases "map_of (g_nodes g) x")
    case None
    then show ?thesis
      by (simp add: getNodeAttribute_def thenE_def)
  next
    case (Some attrs)
    then have "x \<noteq> f"
      using Cons.prems(2) by (auto simp: hasNode_def dest: map_of_SomeD intro: rev_image_eqI)
    with Cons.prems have "f \<in> set files" by simp
    from Cons.IH [OF this Cons.prems(2)] Some show ?thesis
      by (simp add: getNodeAttribute_def thenE_def)
  qed
qed

lemma sum_complexity_present:
  assumes "\<forall>f \<in> set files. hasNode g f"
  shows "\<exists>tot. foldE (\<lambda>acc f. thenE (getNodeAttribute g f complexity) (\<lambda>c. Inr (acc + c))) a files
         = Inr tot"
  using assms
proof (induction files arbitrary: a)
  case Nil
  then show ?case by simp
next
  case (Cons x files)
  then have "hasNode g x" by simp
  then obtain attrs where "map_of (g_nodes g) x = Some attrs"
    by (auto simp: hasNode_def dest!: weak_map_of_SomeI)
  with Cons show ?case
    by (simp add: getNodeAttribute_def thenE_def)
qed


lemma buildRepoGraph3_scan_loop:
  "\<exists>g. foldE (process_file3 w fileIndex) empty_graph files = Inr g \<and> simple_graph g
        \<and> readable_keys w g \<and> (\<forall>f \<in> set files. readFile w f \<noteq> None \<longrightarrow> hasNode g f)"
proof -
  have "simple_graph empty_graph" "readable_keys w empty_graph"
    by (simp_all add: simple_graph_def readable_keys_def empty_graph_def)
  from files3_total [OF this, of fileIndex files] show ?thesis
    by blast
qed

lemma readable_keys_hasNode: "readable_keys w g \<Longrightarrow> hasNode g f \<Longrightarrow> readFile w f \<noteq> None"
  by (auto simp: readable_keys_def hasNode_def list_all_iff)

lemma distinct_out_edges: "simple_graph g \<Longrightarrow> distinct (out_edges g)"
  by (simp add: simple_graph_def out_edges_def)

lemma node_ids_out_nodes: "map node_id (out_nodes g) = map fst (g_nodes g)"
  by (simp add: out_nodes_def case_prod_unfold)

text \<open>With a scanned file that cannot be read, the build throws in its stats.\<close>

lemma graph_and_stats3_unreadable:
  assumes "f \<in> set (scan_files w ig)" "readFile w f = None"
  shows "graph_and_stats3 w ig = Inl NotFoundGraphError"
proof -
  obtain g where
    g: "foldE (process_file3 w (build_index (scan_files w ig))) empty_graph (scan_files w ig)
          = Inr g"
       "readable_keys w g"
    using buildRepoGraph3_scan_loop by blast
  from g(2) assms(2) have "\<not> hasNode g f"
    by (auto dest: readable_keys_hasNode)
  from sum_complexity_missing [OF assms(1) this]
  have "sum_complexity g (scan_files w ig) = Inl NotFoundGraphError"
    by (simp add: sum_complexity_def)
  moreover from assms(1) have "0 < length (scan_files w ig)"
    by (cases "scan_files w ig") auto
  ultimately show ?thesis
    using g(1) by (simp add: graph_and_stats3_def thenE_def avg_complexity_def)
qed

lemma buildRepoGraph3_unreadable:
  assumes "load_ignore w = Inr ig" "f \<in> set (scan_files w ig)" "readFile w f = None"
  shows "buildRepoGraph3 (Some (w # others)) = Inl NotFoundGraphError"
  using graph_and_stats3_unreadable [OF assms(2,3)] assms(1)
  by (simp add: buildRepoGraph3_def thenE_def)

text \<open>With every scanned file readable, the build returns, and no node id and no
  pair of endpoints occurs twice.\<close>

lemma graph_and_stats3_readable:
  assumes "\<forall>f \<in> set (scan_files w ig). readFile w f \<noteq> None"
  shows "\<exists>r. graph_and_stats3 w ig = Inr r \<and> distinct (edges r)
             \<and> distinct (map node_id (nodes r))"
proof -
  obtain g where
    g: "foldE (process_file3 w (build_index (scan_files w ig))) empty_graph (scan_files w ig)
          = Inr g"
       "simple_graph g" "\<forall>f \<in> set (scan_files w ig). readFile w f \<noteq> None \<longrightarrow> hasNode g f"
    using buildRepoGraph3_scan_loop by blast
  from g(3) assms have "\<forall>f \<in> set (scan_files w ig). hasNode g f"
    by blast
  from sum_complexity_present [OF this, of 0] obtain tot where
    "sum_complexity g (scan_files w ig) = Inr tot"
    by (auto simp: sum_complexity_def)
  then have "\<exists>avg. avg_complexity g (scan_files w ig) = Inr avg"
    by (cases "scan_files w ig") (simp_all add: avg_complexity_def thenE_def)
  then obtain avg where "avg_complexity g (scan_files w ig) = Inr avg"
    by blast
  with g(1,2) show ?thesis
    by (simp add: graph_and_stats3_def thenE_def distinct_out_edges node_ids_out_nodes
          simple_graph_def)
qed

lemma graph_and_stats3_no_usage_error: "graph_and_stats3 w ig \<noteq> Inl UsageGraphError"
proof (cases "\<forall>f \<in> set (scan_files w ig). readFile w f \<noteq> None")
  case True
  from graph_and_stats3_readable [OF this] show ?thesis by auto
next
  case False
  then obtain f where "f \<in> set (scan_files w ig)" "readFile w f = None" by blast
  from graph_and_stats3_unreadable [OF this] show ?thesis by simp
qed

lemma buildRepoGraph3_no_usage_error: "buildRepoGraph3 workspaceFolders \<noteq> Inl UsageGraphError"
proof (cases workspaceFolders)
  case None
  then show ?thesis by (simp add: buildRepoGraph3_def)
next
  case (Some ws)
  show ?thesis
  proof (cases ws)
    case Nil
    with Some show ?thesis by (simp add: buildRepoGraph3_def)
  next
    case (Cons w others)
    show ?thesis
    proof (cases "load_ignore w")
      case (Inl e)
      then have "e = FsError"
        by (auto simp: load_ignore_def split: gitignore_file.splits)
      with Inl Some Cons show ?thesis
        by (simp add: buildRepoGraph3_def thenE_def)
    next
      case (Inr ig)
      with Some Cons graph_and_stats3_no_usage_error [of w ig] show ?thesis
        by (simp add: buildRepoGraph3_def thenE_def)
    qed
  qed
qed

text \<open>A \<^verbatim>\<open>.gitignore\<close> that exists and cannot be read makes both builds throw.\<close>

lemma unreadable_gitignore_rejects:
  assumes "gitignore w = GitignoreUnreadable"
  shows "buildRepoGraph3 (Some (w # others)) = Inl FsError"
    and "buildRepoGraph2 (Some (w # others)) = Inl FsError"
  using assms
  by (simp_all add: buildRepoGraph3_def buildRepoGraph2_def load_ignore_def thenE_def)

text \<open>An empty array of workspace folders makes both builds throw.\<close>

lemma empty_workspace_array_rejects:
  "buildRepoGraph3 (Some []) = Inl TypeError"
  "buildRepoGraph2 (Some []) = Inl TypeError"
  by (simp_all add: buildRepoGraph3_def buildRepoGraph2_def)

section \<open>The build of lines 408-602: nodes and the most edited list\<close>

lemma foldE_invariant:
  assumes "foldE body s xs = Inr s'" "P s"
    and "\<And>s x s'. x \<in> set xs \<Longrightarrow> P s \<Longrightarrow> body s x = Inr s' \<Longrightarrow> P s'"
  shows "P s'"
  using assms
proof (induction xs arbitrary: s)
  case Nil
  then show ?case by simp
next
  case (Cons x xs)
  from Cons.prems(1) obtain s1 where s1: "body s x = Inr s1" "foldE body s1 xs = Inr s'"
    by (auto split: sum.splits)
  have first: "P s1" using Cons.prems(3) [of x s s1] Cons.prems(2) s1(1) by simp
  show ?case
  proof (rule Cons.IH [OF s1(2) first])
    fix y t t'
    assume "y \<in> set xs" "P t" "body t y = Inr t'"
    then show "P t'" using Cons.prems(3) [of y t t'] by simp
  qed
qed

lemma addEdge_nodes: "addEdge g s t col = Inr g' \<Longrightarrow> g_nodes g' = g_nodes g"
  by (auto simp: addEdge_def split: if_splits)

lemma addNode_nodes: "addNode g k a = Inr g' \<Longrightarrow> g_nodes g' = g_nodes g @ [(k, a)]"
  by (auto simp: addNode_def split: if_splits)

lemma folder_nodes_no_churn:
  assumes "foldE (add_folder_node base) g folders = Inr g'" "no_churn g"
  shows "no_churn g'"
proof (rule foldE_invariant [OF assms(1), where P = no_churn])
  show "no_churn g" by (rule assms(2))
next
  fix s x s'
  assume "no_churn s" "add_folder_node base s x = Inr s'"
  then show "no_churn s'"
    by (auto simp: add_folder_node_def no_churn_def folder_node_def Let_def
             dest!: addNode_nodes split: if_splits)
qed

lemma folder_edges_nodes:
  assumes "foldE add_folder_edge g folders = Inr g'"
  shows "g_nodes g' = g_nodes g"
proof (rule foldE_invariant [OF assms, where P = "\<lambda>s. g_nodes s = g_nodes g"])
  show "g_nodes g = g_nodes g" by simp
next
  fix s x s'
  assume "g_nodes s = g_nodes g" "add_folder_edge s x = Inr s'"
  then show "g_nodes s' = g_nodes g"
    by (auto simp: add_folder_edge_def Let_def dest!: addEdge_nodes split: if_splits)
qed

lemma add_file2_nodes:
  assumes "add_file2 w (g, idx) f = Inr (g', idx')"
  shows "g_nodes g' = g_nodes g @ [(f, file_node2 w f)]"
  using assms
  by (auto simp: add_file2_def Let_def thenE_Inr_iff dest!: addNode_nodes addEdge_nodes
           split: if_splits)

lemma add_files2_nodes:
  "foldE (add_file2 w) (g, idx) files = Inr (g', idx')
   \<Longrightarrow> g_nodes g' = g_nodes g @ map (\<lambda>f. (f, file_node2 w f)) files"
proof (induction files arbitrary: g idx)
  case Nil
  then show ?case by simp
next
  case (Cons f files)
  from Cons.prems obtain g1 idx1 where
    s1: "add_file2 w (g, idx) f = Inr (g1, idx1)"
        "foldE (add_file2 w) (g1, idx1) files = Inr (g', idx')"
    by (auto split: sum.splits)
  from Cons.IH [OF s1(2)] add_file2_nodes [OF s1(1)] show ?case by simp
qed

lemma add_import2_nodes:
  "add_import2 base idx file g dep = Inr g' \<Longrightarrow> g_nodes g' = g_nodes g"
  by (auto simp: add_import2_def Let_def thenE_Inr_iff dest!: addEdge_nodes
           split: option.splits if_splits)

lemma link_file2_nodes:
  assumes "link_file2 w idx g file = Inr g'"
  shows "g_nodes g' = g_nodes g"
proof -
  from assms have run: "foldE (add_import2 (rootPath w) idx file) g
      (if has_ext parse_exts file then parseImports w (content_or_empty w file) else []) = Inr g'"
    by (simp add: link_file2_def Let_def)
  show ?thesis
    by (rule foldE_invariant [OF run, where P = "\<lambda>s. g_nodes s = g_nodes g"])
       (auto dest: add_import2_nodes)
qed

lemma link_files2_nodes:
  assumes "foldE (link_file2 w idx) g files = Inr g'"
  shows "g_nodes g' = g_nodes g"
  by (rule foldE_invariant [OF assms, where P = "\<lambda>s. g_nodes s = g_nodes g"])
     (auto dest: link_file2_nodes)

lemma most_edited2_build:
  assumes "graph_and_stats2 w ig = Inr r"
  shows "map_option mostEdited (stats r) =
         Some (map entry_of (take 5 (by_commits_desc
            (filter (\<lambda>n. 0 < commits n) (map (file_node2 w) (scan_files w ig))))))"
proof -
  from assms obtain g1 g2 g3 idx g avg where
    g1: "foldE (add_folder_node (rootPath w)) empty_graph
           (collect_folders (rootPath w) (scan_files w ig)) = Inr g1" and
    g2: "foldE add_folder_edge g1 (collect_folders (rootPath w) (scan_files w ig)) = Inr g2" and
    g3: "foldE (add_file2 w) (g2, []) (scan_files w ig) = Inr (g3, idx)" and
    g: "foldE (link_file2 w idx) g3 (scan_files w ig) = Inr g" and
    r: "stats r = Some \<lparr>avgComplexity = avg, mostEdited = most_edited2 g,
                        totalFiles = length (scan_files w ig),
                        clusters = cluster_count (out_nodes g)\<rparr>"
    by (auto simp: graph_and_stats2_def Let_def thenE_Inr_iff)
  have "no_churn empty_graph"
    by (simp add: no_churn_def empty_graph_def)
  from folder_nodes_no_churn [OF g1 this] folder_edges_nodes [OF g2]
  have quiet: "no_churn g2"
    by (simp add: no_churn_def)
  have "g_nodes g = g_nodes g2 @ map (\<lambda>f. (f, file_node2 w f)) (scan_files w ig)"
    using link_files2_nodes [OF g] add_files2_nodes [OF g3] by simp
  moreover have "filter (\<lambda>n. 0 < commits n) (map snd (g_nodes g2)) = []"
    using quiet by (auto simp: no_churn_def list_all_iff filter_empty_conv)
  ultimately have "filter (\<lambda>n. 0 < commits n) (map snd (g_nodes g))
      = filter (\<lambda>n. 0 < commits n) (map (file_node2 w) (scan_files w ig))"
    by (simp add: comp_def)
  with r show ?thesis
    by (simp add: most_edited2_def)
qed

lemma by_commits_desc_sorted:
  "sorted_wrt (\<lambda>a b. commits b \<le> commits a) (by_commits_desc ns)"
proof -
  have "sorted (map (\<lambda>n. - int (commits n)) (by_commits_desc ns))"
    by (simp add: by_commits_desc_def)
  then show ?thesis
    by (simp add: sorted_wrt_map sorted_wrt_iff_nth_less sorted_iff_nth_mono_less)
qed

lemma by_commits_desc_stable:
  "filter (\<lambda>n. commits n = k) (by_commits_desc ns) = filter (\<lambda>n. commits n = k) ns"
  using sort_key_stable [of "\<lambda>n. - int (commits n)" "- int k" ns]
  by (simp add: by_commits_desc_def)

lemma set_by_commits_desc: "set (by_commits_desc ns) = set ns"
  by (simp add: by_commits_desc_def)


lemma entry_of_file_node2:
  "entry_of (file_node2 w f) = (path_basename f, commits_of (gitLog w f))"
  by (simp add: entry_of_def file_node2_def Let_def)

lemma most_edited2_properties:
  assumes "graph_and_stats2 w ig = Inr r" "stats r = Some s"
  shows "length (mostEdited s) \<le> 5"
    and "\<forall>e \<in> set (mostEdited s). 0 < snd e
           \<and> (\<exists>f \<in> set (scan_files w ig). e = (path_basename f, commits_of (gitLog w f)))"
    and "sorted_wrt (\<lambda>a b. snd b \<le> snd a) (mostEdited s)"
proof -
  define churned where
    "churned = filter (\<lambda>n. 0 < commits n) (map (file_node2 w) (scan_files w ig))"
  from most_edited2_build [OF assms(1)] assms(2)
  have list: "mostEdited s = map entry_of (take 5 (by_commits_desc churned))"
    by (simp add: churned_def)
  show "length (mostEdited s) \<le> 5"
    by (simp add: list)
  show "\<forall>e \<in> set (mostEdited s). 0 < snd e
           \<and> (\<exists>f \<in> set (scan_files w ig). e = (path_basename f, commits_of (gitLog w f)))"
  proof
    fix e
    assume "e \<in> set (mostEdited s)"
    then obtain n where n: "n \<in> set (take 5 (by_commits_desc churned))" "e = entry_of n"
      by (auto simp: list)
    from n(1) have "n \<in> set churned"
      by (auto dest: in_set_takeD simp: set_by_commits_desc)
    then obtain f where f: "f \<in> set (scan_files w ig)" "n = file_node2 w f" "0 < commits n"
      by (auto simp: churned_def)
    from n(2) f(2) have e: "e = (path_basename f, commits_of (gitLog w f))"
      by (simp add: entry_of_file_node2)
    moreover from f(3) n(2) have "0 < snd e"
      by (simp add: entry_of_def)
    ultimately show "0 < snd e
           \<and> (\<exists>f \<in> set (scan_files w ig). e = (path_basename f, commits_of (gitLog w f)))"
      using f(1) by blast
  qed
  have "sorted_wrt (\<lambda>a b. commits b \<le> commits a) (take 5 (by_commits_desc churned))"
    by (rule sorted_wrt_take) (rule by_commits_desc_sorted)
  then show "sorted_wrt (\<lambda>a b. snd b \<le> snd a) (mostEdited s)"
    by (simp add: list sorted_wrt_map entry_of_def)
qed

section \<open>The claims\<close>

subsection \<open>C5: the complexity heuristic\<close>

text \<open>
  Claim C5, at the text \<^verbatim>\<open>a && b\<close>. The pattern asks for a word boundary on both sides
  of \<^verbatim>\<open>&&\<close>, and there is none between a space and \<^verbatim>\<open>&\<close>: the operator is not
  counted and the complexity stays 1. The same holds for \<^verbatim>\<open>||\<close>. The operators are
  counted only when word characters touch them on both sides, as in \<^verbatim>\<open>a&&b\<close>; the
  keyword inside \<^verbatim>\<open>modifier\<close> is not counted and a free-standing \<^verbatim>\<open>if\<close> is.
\<close>

theorem complexity_misses_spaced_operators:
  "complexity_of ''a && b'' = 1
   \<and> complexity_of ''a || b'' = 1
   \<and> complexity_of ''a&&b'' = 2
   \<and> complexity_of ''modifier'' = 1
   \<and> complexity_of ''if (x) y'' = 2"
  by code_simp

subsection \<open>C6: the line count\<close>

text \<open>
  Claim C6 as stated fails at the one-line text \<^verbatim>\<open>a\n\<close>: it ends with a newline and
  has one newline-terminated segment, but \<^verbatim>\<open>split\<close> also returns the empty segment
  behind the newline, so the line count is 2.
\<close>

theorem loc_of_trailing_newline_counterexample:
  "last (''a'' @ [newline]) = newline
   \<and> terminated_segments (''a'' @ [newline]) = 1
   \<and> loc_of (''a'' @ [newline]) = 2"
  by code_simp

text \<open>
  Claim C6, amended. The line count is the number of segments \<^verbatim>\<open>split\<close> returns,
  one more than the number of newline characters: a last segment without a final
  newline is counted, and a final newline adds one more, empty, segment.
\<close>

theorem loc_of_counts_newlines:
  "loc_of content = Suc (length (filter (\<lambda>c. c = newline) content))
   \<and> loc_of (content @ [newline]) = Suc (loc_of content)"
  by (simp add: loc_of_def length_split_on)

subsection \<open>C4: the order of the resolution steps\<close>

text \<open>
  Claim C4 as stated fails for the specifier \<^verbatim>\<open>c\<close> against an index that holds
  \<^verbatim>\<open>c.tsx\<close>: the order with all four parseable extensions finds \<^verbatim>\<open>/r/c.tsx\<close> in its
  second step, the code finds nothing, because it appends \<^verbatim>\<open>.js\<close> and \<^verbatim>\<open>.ts\<close> only.
\<close>

theorem resolve_tsx_counterexample:
  "resolve_in_order parse_exts index_tsx ''c'' = Some ''/r/c.tsx''
   \<and> resolve index_tsx ''c'' = None"
  by code_simp

text \<open>
  Claim C4, amended. For every specifier the resolution tries, in this order and
  stopping at the first hit: the exact lookup of the specifier, the lookup of the
  specifier with \<^verbatim>\<open>.js\<close> appended, the lookup with \<^verbatim>\<open>.ts\<close> appended, and the first
  indexed basename, in insertion order, that is a suffix of the specifier. When no step
  hits, neither build adds an edge for the specifier.
\<close>

theorem resolve_order:
  "resolve fileIndex dep = resolve_in_order [''js'', ''ts''] fileIndex dep
   \<and> (\<not> truthy (resolve fileIndex dep) \<longrightarrow>
        add_import3 fileIndex file g dep = Inr g
        \<and> add_import2 base fileIndex file g dep = Inr g)"
proof -
  have "resolve fileIndex dep = resolve_in_order [''js'', ''ts''] fileIndex dep"
    by (simp add: resolve_def resolve_in_order_def js_or_def)
  then show ?thesis
    by (simp add: import_dropped3 import_dropped2)
qed

theorem resolve_order_witness:
  "\<not> truthy (resolve index_tsx ''left-pad'')
   \<and> resolve index_tsx ''left-pad'' = resolve_in_order [''js'', ''ts''] index_tsx ''left-pad''
   \<and> add_import3 index_tsx ''/r/c.tsx'' empty_graph ''left-pad'' = Inr empty_graph
   \<and> add_import2 ''/r'' index_tsx ''/r/c.tsx'' empty_graph ''left-pad'' = Inr empty_graph"
proof -
  have miss: "\<not> truthy (resolve index_tsx ''left-pad'')"
    by code_simp
  show ?thesis
    using miss resolve_order [of index_tsx "''left-pad''" "''/r/c.tsx''" empty_graph "''/r''"]
    by simp
qed

subsection \<open>C8: no workspace, and a root without source files\<close>

text \<open>
  Claim C8 as stated fails when no workspace is open: the build returns the object
  \<^verbatim>\<open>{ nodes: [], edges: [], stats: {} }\<close>, whose \<^verbatim>\<open>stats\<close> has no field, so no
  \<^verbatim>\<open>totalFiles\<close> and no \<^verbatim>\<open>clusters\<close> are reported.
\<close>

theorem no_workspace_stats_counterexample:
  "map_option totalFiles (stats_of (buildRepoGraph3 None)) = None
   \<and> map_option clusters (stats_of (buildRepoGraph3 None)) = None
   \<and> map_option totalFiles (stats_of (buildRepoGraph2 None)) = None
   \<and> map_option clusters (stats_of (buildRepoGraph2 None)) = None"
  by (simp add: buildRepoGraph3_def buildRepoGraph2_def stats_of_def)

text \<open>
  Claim C8, amended. When \<^verbatim>\<open>workspaceFolders\<close> is undefined, both builds return,
  without failing, empty nodes, empty edges and a stats object without fields. When
  the first workspace folder has a \<^verbatim>\<open>.gitignore\<close> that is absent or can be read, and
  no file of its tree matches the extension allowlist, both builds return, without
  failing, empty nodes, empty edges and the stats \<^verbatim>\<open>avgComplexity = "0.00"\<close>,
  \<^verbatim>\<open>mostEdited = []\<close>, \<^verbatim>\<open>totalFiles = 0\<close> and \<^verbatim>\<open>clusters = 0\<close>.
\<close>

theorem empty_builds:
  "buildRepoGraph3 None = Inr \<lparr>nodes = [], edges = [], stats = None\<rparr>
   \<and> buildRepoGraph2 None = Inr \<lparr>nodes = [], edges = [], stats = None\<rparr>
   \<and> (gitignore w \<noteq> GitignoreUnreadable \<and> no_source_files w \<longrightarrow>
        buildRepoGraph3 (Some (w # others)) =
          Inr \<lparr>nodes = [], edges = [],
               stats = Some \<lparr>avgComplexity = ''0.00'', mostEdited = [], totalFiles = 0,
                             clusters = 0\<rparr>\<rparr>
        \<and> buildRepoGraph2 (Some (w # others)) =
          Inr \<lparr>nodes = [], edges = [],
               stats = Some \<lparr>avgComplexity = ''0.00'', mostEdited = [], totalFiles = 0,
                             clusters = 0\<rparr>\<rparr>)"
proof -
  have none: "buildRepoGraph3 None = Inr \<lparr>nodes = [], edges = [], stats = None\<rparr>"
    "buildRepoGraph2 None = Inr \<lparr>nodes = [], edges = [], stats = None\<rparr>"
    by (simp_all add: buildRepoGraph3_def buildRepoGraph2_def)
  have zero: "toFixed2 0 = ''0.00''"
    by code_simp
  have some: "buildRepoGraph3 (Some (w # others)) =
          Inr \<lparr>nodes = [], edges = [],
               stats = Some \<lparr>avgComplexity = ''0.00'', mostEdited = [], totalFiles = 0,
                             clusters = 0\<rparr>\<rparr>
        \<and> buildRepoGraph2 (Some (w # others)) =
          Inr \<lparr>nodes = [], edges = [],
               stats = Some \<lparr>avgComplexity = ''0.00'', mostEdited = [], totalFiles = 0,
                             clusters = 0\<rparr>\<rparr>"
    if readable: "gitignore w \<noteq> GitignoreUnreadable" and empty: "no_source_files w"
  proof -
    from readable obtain ig where ig: "load_ignore w = Inr ig"
      by (cases "gitignore w") (simp_all add: load_ignore_def)
    have files: "scan_files w ig = []"
      using empty by (rule scan_files_without_source_files)
    have "graph_and_stats3 w ig =
          Inr \<lparr>nodes = [], edges = [],
               stats = Some \<lparr>avgComplexity = ''0.00'', mostEdited = [], totalFiles = 0,
                             clusters = 0\<rparr>\<rparr>"
      by (simp add: graph_and_stats3_def files build_index_def thenE_def avg_complexity_def
            empty_graph_def out_nodes_def out_edges_def most_edited3_def by_commits_desc_def
            cluster_count_def zero)
    moreover have "graph_and_stats2 w ig =
          Inr \<lparr>nodes = [], edges = [],
               stats = Some \<lparr>avgComplexity = ''0.00'', mostEdited = [], totalFiles = 0,
                             clusters = 0\<rparr>\<rparr>"
      by (simp add: graph_and_stats2_def files collect_folders_def thenE_def avg_complexity_def
            empty_graph_def out_nodes_def out_edges_def most_edited2_def by_commits_desc_def
            cluster_count_def zero)
    ultimately show ?thesis
      using ig by (simp add: buildRepoGraph3_def buildRepoGraph2_def thenE_def)
  qed
  from none some show ?thesis by blast
qed

theorem empty_builds_witness:
  "gitignore world_docs_only \<noteq> GitignoreUnreadable
   \<and> no_source_files world_docs_only
   \<and> buildRepoGraph3 (Some [world_docs_only]) =
       Inr \<lparr>nodes = [], edges = [],
            stats = Some \<lparr>avgComplexity = ''0.00'', mostEdited = [], totalFiles = 0,
                          clusters = 0\<rparr>\<rparr>
   \<and> buildRepoGraph2 (Some [world_docs_only]) =
       Inr \<lparr>nodes = [], edges = [],
            stats = Some \<lparr>avgComplexity = ''0.00'', mostEdited = [], totalFiles = 0,
                          clusters = 0\<rparr>\<rparr>"
proof -
  have readable: "gitignore world_docs_only \<noteq> GitignoreUnreadable"
    by (simp add: world_docs_only_def)
  have empty: "no_source_files world_docs_only"
    by code_simp
  show ?thesis
    using readable empty empty_builds [of world_docs_only "[]"] by simp
qed

subsection \<open>C2: the root with \<^verbatim>\<open>a.ts\<close> and \<^verbatim>\<open>b.ts\<close>\<close>

text \<open>
  Claim C2, at the root that holds exactly \<^verbatim>\<open>a.ts\<close>, importing \<^verbatim>\<open>"./b"\<close> and
  \<^verbatim>\<open>"left-pad"\<close>, and \<^verbatim>\<open>b.ts\<close>. Both builds return the two file nodes and no edge
  at all: the import edge from \<^verbatim>\<open>a.ts\<close> to \<^verbatim>\<open>b.ts\<close> that the claim expects is
  missing. The index is keyed by basename and is asked for the raw specifier: none of
  \<^verbatim>\<open>./b\<close>, \<^verbatim>\<open>./b.js\<close>, \<^verbatim>\<open>./b.ts\<close> is a key, and no key is a suffix of \<^verbatim>\<open>./b\<close>.
  The same resolver does find \<^verbatim>\<open>b.ts\<close> for the specifier \<^verbatim>\<open>b\<close>, by appending
  \<^verbatim>\<open>.ts\<close>, and for the specifier \<^verbatim>\<open>./b.ts\<close>, by the suffix search.
\<close>

theorem relative_import_unresolved:
  "node_ids_of (buildRepoGraph3 (Some [world_ab])) = Some [''/r/a.ts'', ''/r/b.ts'']
   \<and> node_ids_of (buildRepoGraph2 (Some [world_ab])) = Some [''/r/a.ts'', ''/r/b.ts'']
   \<and> edges_of (buildRepoGraph3 (Some [world_ab])) = Some []
   \<and> edges_of (buildRepoGraph2 (Some [world_ab])) = Some []
   \<and> resolve (build_index [''/r/a.ts'', ''/r/b.ts'']) ''./b'' = None
   \<and> resolve (build_index [''/r/a.ts'', ''/r/b.ts'']) ''b'' = Some ''/r/b.ts''
   \<and> resolve (build_index [''/r/a.ts'', ''/r/b.ts'']) ''./b.ts'' = Some ''/r/b.ts''"
  by code_simp

subsection \<open>C1: insertion into the graph\<close>

text \<open>
  Claim C1, at the root where \<^verbatim>\<open>b.ts\<close> imports \<^verbatim>\<open>"./a.ts"\<close> in two declarations. The
  build of lines 408-602 calls \<^verbatim>\<open>addEdge\<close> for every resolved import without asking
  \<^verbatim>\<open>hasEdge\<close> first; the second call finds the edge present and throws, so the build
  fails with a \<^verbatim>\<open>UsageGraphError\<close>. The build of lines 1107-1269 asks \<^verbatim>\<open>hasEdge\<close> and
  returns the edge once. In the same way the first build fails at the root where two
  files of \<^verbatim>\<open>src\<close> import a file of \<^verbatim>\<open>lib\<close>: the second rollup edge from \<^verbatim>\<open>src\<close> to
  \<^verbatim>\<open>lib\<close> is added without a check.
\<close>

theorem repeated_import_raises:
  "buildRepoGraph2 (Some [world_twice]) = Inl UsageGraphError
   \<and> edges_of (buildRepoGraph3 (Some [world_twice])) = Some [(''/r/b.ts'', ''/r/a.ts'')]
   \<and> buildRepoGraph2 (Some [world_crossing]) = Inl UsageGraphError
   \<and> edges_of (buildRepoGraph3 (Some [world_crossing])) =
       Some [(''/r/src/x.ts'', ''/r/lib/y.ts''), (''/r/src/z.ts'', ''/r/lib/y.ts'')]"
  by code_simp

subsection \<open>C3: a file that cannot be read\<close>

text \<open>
  Claim C3, at the root where \<^verbatim>\<open>a.ts\<close> cannot be read and \<^verbatim>\<open>b.ts\<close> can. The build of
  lines 408-602 goes on with an empty content and returns a node for \<^verbatim>\<open>a.ts\<close> with
  line count 1 and complexity 1. The build of lines 1107-1269 skips the file in its
  loop, but then asks the graph for the complexity of every scanned path: the lookup
  of the absent node throws a \<^verbatim>\<open>NotFoundGraphError\<close> and the build returns no graph.
\<close>

theorem unreadable_file_outcomes:
  "readFile world_unreadable ''/r/a.ts'' = None
   \<and> node_ids_of (buildRepoGraph2 (Some [world_unreadable])) = Some [''/r/a.ts'', ''/r/b.ts'']
   \<and> map_option (\<lambda>r. map (\<lambda>n. (loc n, complexity n)) (nodes r))
        (case buildRepoGraph2 (Some [world_unreadable]) of Inl e \<Rightarrow> None | Inr r \<Rightarrow> Some r)
      = Some [(1, 1), (1, 1)]
   \<and> buildRepoGraph3 (Some [world_unreadable]) = Inl NotFoundGraphError"
  by code_simp

subsection \<open>C7: the most edited files\<close>

text \<open>
  Claim C7, at the root with one file and no version-control history. The build of
  lines 1107-1269 sorts all nodes and takes five without looking at the churn, so the
  file is listed with churn 0. The build of lines 408-602 filters on
  \<^verbatim>\<open>commits > 0\<close> first and lists nothing.
\<close>

theorem most_edited_lists_zero_churn:
  "map_option mostEdited (stats_of (buildRepoGraph3 (Some [world_no_history])))
     = Some [(''a.ts'', 0)]
   \<and> map_option mostEdited (stats_of (buildRepoGraph2 (Some [world_no_history]))) = Some []"
  by code_simp

subsection \<open>C10: the stats and the scanned files\<close>

text \<open>
  Claim C10, at the root whose only file cannot be read. The walk collects the path
  and the loop adds no node for it, so the scanned-file list has one path more than
  the graph has nodes. The average then runs over the scanned-file list, as the claim
  says, and looks the absent node up; the lookup throws a \<^verbatim>\<open>NotFoundGraphError\<close>
  before \<^verbatim>\<open>|| 0\<close> is reached. The build returns no graph and no stats: there is no
  \<^verbatim>\<open>totalFiles\<close> that exceeds the number of file nodes, and no average.
\<close>

theorem unread_file_rejects_stats:
  "scanned_files_of world_only_unreadable = Some [''/r/a.ts'']
   \<and> readFile world_only_unreadable ''/r/a.ts'' = None
   \<and> buildRepoGraph3 (Some [world_only_unreadable]) = Inl NotFoundGraphError
   \<and> stats_of (buildRepoGraph3 (Some [world_only_unreadable])) = None"
  by code_simp

end
